theory Spec2Isabelle
  imports Main
begin

section \<open>Go library functions used by the access package\<close>

text \<open>
  Go strings are byte sequences, as \<^typ>\<open>string\<close> is. The package calls
  \<^verbatim>\<open>strings.Split\<close> and \<^verbatim>\<open>strings.Count\<close> with the one-byte separator
  \<^verbatim>\<open>"/"\<close> only, so the separator is a \<^typ>\<open>char\<close> here.
\<close>

definition strings_HasPrefix :: "string \<Rightarrow> string \<Rightarrow> bool" where
  "strings_HasPrefix s p = (take (length p) s = p)"

definition strings_HasSuffix :: "string \<Rightarrow> string \<Rightarrow> bool" where
  "strings_HasSuffix s p = (length p \<le> length s \<and> drop (length s - length p) s = p)"

definition strings_TrimPrefix :: "string \<Rightarrow> string \<Rightarrow> string" where
  "strings_TrimPrefix s p = (if strings_HasPrefix s p then drop (length p) s else s)"

definition strings_TrimSuffix :: "string \<Rightarrow> string \<Rightarrow> string" where
  "strings_TrimSuffix s p = (if strings_HasSuffix s p then take (length s - length p) s else s)"

fun strings_Count :: "string \<Rightarrow> char \<Rightarrow> nat" where
  "strings_Count [] sep = 0"
| "strings_Count (c # cs) sep = (if c = sep then Suc (strings_Count cs sep) else strings_Count cs sep)"

fun strings_Split :: "string \<Rightarrow> char \<Rightarrow> string list" where
  "strings_Split [] sep = [[]]"
| "strings_Split (c # cs) sep =
     (if c = sep then [] # strings_Split cs sep
      else (case strings_Split cs sep of
              [] \<Rightarrow> [[c]]
            | p # ps \<Rightarrow> (c # p) # ps))"

section \<open>Errors\<close>

text \<open>
  The package builds its errors with \<^verbatim>\<open>fmt.Errorf\<close>; each constructor below is one of
  its format strings; \<open>ErrWrap\<close> is \<^verbatim>\<open>fmt.Errorf("<message>: %w", err)\<close> with any other
  message. \<open>ErrExternal\<close> is an error handed over by a library outside the repository
  (\<^verbatim>\<open>net/url\<close>, gRPC, the resource-map client), with its message, and
  \<open>ErrGitHubResponse\<close> is a \<^verbatim>\<open>*github.ErrorResponse\<close> with its status code.
\<close>

datatype error =
    ErrNotInitialized
  | ErrEmptyURL
  | ErrInvalidURLFormat error
  | ErrUnsupportedFormat string
  | ErrNormalize error
  | ErrFetch error
  | ErrWrap string error
  | ErrExternal string
  | ErrGitHubResponse nat string

fun Error :: "error \<Rightarrow> string" where
  "Error ErrNotInitialized = ''validator not initialized''"
| "Error ErrEmptyURL = ''repository URL cannot be empty''"
| "Error (ErrInvalidURLFormat err) = ''invalid URL format: '' @ Error err"
| "Error (ErrUnsupportedFormat repoURL) = ''unsupported repository URL format: '' @ repoURL"
| "Error (ErrNormalize err) = ''failed to normalize repository URL: '' @ Error err"
| "Error (ErrFetch err) = ''failed to fetch accessible repositories: '' @ Error err"
| "Error (ErrWrap message err) = message @ '': '' @ Error err"
| "Error (ErrExternal msg) = msg"
| "Error (ErrGitHubResponse code msg) = msg"

section \<open>normalizeRepositoryURL\<close>

text \<open>
  \<^verbatim>\<open>url.Parse\<close> belongs to the Go standard library. The normalizer reads two fields of
  its result, \<^verbatim>\<open>Host\<close> and \<^verbatim>\<open>Path\<close>; the parser itself is the parameter \<open>parse\<close>
  of everything that normalizes.
\<close>

record URL =
  Host :: string
  Path :: string

type_synonym url_parser = "string \<Rightarrow> error + URL"

text \<open>
  For closed examples a parser is needed. \<open>url_Parse\<close> follows \<^verbatim>\<open>net/url.Parse\<close> on the
  references the normalizer hands to it, those that start with \<^verbatim>\<open>http://\<close> or
  \<^verbatim>\<open>https://\<close>: a control byte is an error, the fragment (from the first \<^verbatim>\<open>#\<close>) and
  the query (from the first \<^verbatim>\<open>?\<close>) are cut off, the authority runs from \<^verbatim>\<open>//\<close> to the
  next \<^verbatim>\<open>/\<close>, the host is what follows the last \<^verbatim>\<open>@\<close> of the authority, kept in the
  letter case it was written in, and the path is the rest. Port and host-character checks
  and percent-decoding are left out, so the model is exact only on references whose
  authority and path are made of letters, digits, \<^verbatim>\<open>.\<close>, \<^verbatim>\<open>-\<close>, \<^verbatim>\<open>_\<close> and \<^verbatim>\<open>/\<close>; the
  general theorems below hold for every parser and do not depend on it.
\<close>

definition stringContainsCTLByte :: "string \<Rightarrow> bool" where
  "stringContainsCTLByte s = (\<exists>c \<in> set s. of_char c < (32::nat) \<or> of_char c = (127::nat))"

fun afterLast :: "char \<Rightarrow> string \<Rightarrow> string" where
  "afterLast sep [] = []"
| "afterLast sep (c # cs) = (if sep \<in> set cs then afterLast sep cs else if c = sep then cs else c # cs)"

definition url_Parse :: url_parser where
  "url_Parse rawURL =
     (let u = takeWhile (\<lambda>c. c \<noteq> CHR ''#'') rawURL in
      if stringContainsCTLByte u then Inl (ErrExternal ''net/url: invalid control character in URL'')
      else (let rest = takeWhile (\<lambda>c. c \<noteq> CHR ''?'') u;
                rest = (if strings_HasPrefix rest ''https:'' then drop 6 rest
                        else if strings_HasPrefix rest ''http:'' then drop 5 rest else rest)
            in if strings_HasPrefix rest ''//'' then
                 (let authority = takeWhile (\<lambda>c. c \<noteq> CHR ''/'') (drop 2 rest);
                      rest = dropWhile (\<lambda>c. c \<noteq> CHR ''/'') (drop 2 rest)
                  in Inr \<lparr>Host = afterLast CHR ''@'' authority, Path = rest\<rparr>)
               else Inr \<lparr>Host = [], Path = rest\<rparr>))"

definition isValidRepoPath :: "string \<Rightarrow> bool" where
  "isValidRepoPath path =
     (if path = [] then False
      else (let parts = strings_Split path CHR ''/'' in
            if length parts \<noteq> 2 then False
            else parts ! 0 \<noteq> [] \<and> parts ! 1 \<noteq> []))"

definition normalizeRepositoryURL :: "url_parser \<Rightarrow> string \<Rightarrow> error + string" where
  "normalizeRepositoryURL parse repoURL =
     (if repoURL = [] then Inl ErrEmptyURL
      else if strings_HasPrefix repoURL ''http://'' \<or> strings_HasPrefix repoURL ''https://'' then
        (case parse repoURL of
           Inl err \<Rightarrow> Inl (ErrInvalidURLFormat err)
         | Inr parsedURL \<Rightarrow>
             if Host parsedURL \<noteq> ''github.com'' then Inl (ErrUnsupportedFormat repoURL)
             else (let path = strings_TrimPrefix (Path parsedURL) ''/'';
                       path = strings_TrimSuffix path ''.git''
                   in if \<not> isValidRepoPath path then Inl (ErrUnsupportedFormat repoURL)
                      else Inr (''github.com/'' @ path)))
      else if strings_HasPrefix repoURL ''github.com/'' then
        (let path = strings_TrimPrefix repoURL ''github.com/'';
             path = strings_TrimSuffix path ''.git''
         in if \<not> isValidRepoPath path then Inl (ErrUnsupportedFormat repoURL)
            else Inr (''github.com/'' @ path))
      else if strings_Count repoURL CHR ''/'' = 1 then
        (let path = strings_TrimSuffix repoURL ''.git''
         in if \<not> isValidRepoPath path then Inl (ErrUnsupportedFormat repoURL)
            else Inr (''github.com/'' @ path))
      else Inl (ErrUnsupportedFormat repoURL))"

section \<open>The validator\<close>

text \<open>
  The struct \<^verbatim>\<open>Validator\<close>: the set \<^verbatim>\<open>map[string]struct{}\<close> is a set of keys. The
  mutex is not modelled: every method holds it from entry to return, so each method is one
  atomic step on the record.
\<close>

record Validator =
  userEmail :: string
  accessibleRepos :: "string set"
  initialized :: bool

definition NewValidator :: "string \<Rightarrow> Validator" where
  "NewValidator email = \<lparr>userEmail = email, accessibleRepos = {}, initialized = False\<rparr>"

section \<open>The resource-map collaborator\<close>

text \<open>
  \<^verbatim>\<open>GetAllAccessibleRepos\<close> talks to the resource-map service over gRPC. The service is
  the record \<open>backend\<close>: whether \<^verbatim>\<open>grpc.NewClient\<close> and \<^verbatim>\<open>pb.NewSyncClient\<close> fail, and
  what \<^verbatim>\<open>Traverse\<close> answers for the member whose \<^verbatim>\<open>name\<close> property is the given email.
  An output node is its property map (a nil node has no property). Every call to the
  service is logged as an \<open>rpc\<close>, so that a theorem can say that no call was made.
  \<^verbatim>\<open>log.Fatalf\<close> ends the process: \<open>Exit\<close>.
\<close>

type_synonym node_properties = "string \<rightharpoonup> string"

record backend =
  grpc_NewClient :: "error option"
  pb_NewSyncClient :: "error option"
  Traverse :: "string \<Rightarrow> error + node_properties list"

datatype rpc = NewClient | NewSyncClient | TraverseCall string

datatype 'a exec = Exit | Return 'a

record repository =
  repo_field :: string
  org_field :: string

text \<open>
  The getters guard against a nil receiver; the package calls them on the elements of a
  slice of structs, which are never nil.
\<close>

definition GetOrg :: "repository \<Rightarrow> string" where
  "GetOrg r = org_field r"

definition GetRepo :: "repository \<Rightarrow> string" where
  "GetRepo r = repo_field r"

definition newConnection :: "backend \<Rightarrow> rpc list \<times> (error + unit)" where
  "newConnection b =
     (case grpc_NewClient b of
        Some err \<Rightarrow> ([NewClient], Inl (ErrExternal (''failed to create gRPC connection: '' @ Error err)))
      | None \<Rightarrow> ([NewClient], Inr ()))"

definition initialise :: "backend \<Rightarrow> rpc list \<times> unit exec" where
  "initialise b =
     (case newConnection b of
        (calls, Inl err) \<Rightarrow> (calls, Exit)
      | (calls, Inr conn) \<Rightarrow>
          (case pb_NewSyncClient b of
             Some err \<Rightarrow> (calls @ [NewSyncClient], Exit)
           | None \<Rightarrow> (calls @ [NewSyncClient], Return ())))"

text \<open>The loop over \<^verbatim>\<open>res.Output\<close>; \<open>acc\<close> is the slice \<^verbatim>\<open>accessibleRepos\<close> built so far.\<close>

fun collectOutput :: "node_properties list \<Rightarrow> repository list \<Rightarrow> repository list" where
  "collectOutput [] acc = acc"
| "collectOutput (properties # outputs) acc =
     (let org = (case properties ''org'' of Some val \<Rightarrow> val | None \<Rightarrow> []);
          repo = (case properties ''name'' of Some val \<Rightarrow> val | None \<Rightarrow> [])
      in if repo \<noteq> [] \<and> org \<noteq> []
         then collectOutput outputs (acc @ [\<lparr>repo_field = repo, org_field = org\<rparr>])
         else collectOutput outputs acc)"

definition GetAllAccessibleRepos :: "backend \<Rightarrow> string \<Rightarrow> rpc list \<times> (error + repository list) exec" where
  "GetAllAccessibleRepos b email =
     (case initialise b of
        (calls, Exit) \<Rightarrow> (calls, Exit)
      | (calls, Return client) \<Rightarrow>
          (case Traverse b email of
             Inl err \<Rightarrow> (calls @ [TraverseCall email], Return (Inl err))
           | Inr outputs \<Rightarrow> (calls @ [TraverseCall email], Return (Inr (collectOutput outputs [])))))"

section \<open>Initialize\<close>

definition fetchAccessibleRepositories :: "backend \<Rightarrow> Validator \<Rightarrow> rpc list \<times> (error + string list) exec" where
  "fetchAccessibleRepositories b v =
     (case GetAllAccessibleRepos b (userEmail v) of
        (calls, Exit) \<Rightarrow> (calls, Exit)
      | (calls, Return (Inl err)) \<Rightarrow> (calls, Return (Inl (ErrFetch err)))
      | (calls, Return (Inr repos)) \<Rightarrow>
          (calls, Return (Inr (foldl (\<lambda>repoURLs r. repoURLs @ [''github.com/'' @ GetOrg r @ ''/'' @ GetRepo r])
                                     [] repos))))"

definition Initialize :: "backend \<Rightarrow> Validator \<Rightarrow> rpc list \<times> (Validator \<times> error option) exec" where
  "Initialize b v =
     (if initialized v then ([], Return (v, None))
      else (case fetchAccessibleRepositories b v of
              (calls, Exit) \<Rightarrow> (calls, Exit)
            | (calls, Return (Inl err)) \<Rightarrow> (calls, Return (v, Some (ErrFetch err)))
            | (calls, Return (Inr repos)) \<Rightarrow>
                (calls, Return (v\<lparr>accessibleRepos := foldl (\<lambda>m r. insert r m) {} repos,
                                   initialized := True\<rparr>, None))))"

definition IsRepositoryAccessible :: "url_parser \<Rightarrow> Validator \<Rightarrow> string \<Rightarrow> bool \<times> error option" where
  "IsRepositoryAccessible parse v repoURL =
     (if \<not> initialized v then (False, Some ErrNotInitialized)
      else (case normalizeRepositoryURL parse repoURL of
              Inl err \<Rightarrow> (False, Some (ErrNormalize err))
            | Inr normalizedURL \<Rightarrow> (normalizedURL \<in> accessibleRepos v, None)))"

section \<open>The gated tool handlers\<close>

text \<open>
  The handlers of package \<^verbatim>\<open>github\<close> take a request, read its parameters, and talk to
  GitHub through the clients that \<^verbatim>\<open>getClient\<close> and \<^verbatim>\<open>getRawClient\<close> hand out.
  The parameter helpers (\<^verbatim>\<open>RequiredParam\<close>, \<^verbatim>\<open>OptionalParam\<close>,
  \<^verbatim>\<open>OptionalPaginationParams\<close>) are not among the sources; they are the record
  \<open>params\<close>, over any type of requests.
\<close>

record pagination =
  Page :: int
  PerPage :: int

record 'req params =
  RequiredParam :: "'req \<Rightarrow> string \<Rightarrow> error + string"
  OptionalParam :: "'req \<Rightarrow> string \<Rightarrow> error + string"
  OptionalPaginationParams :: "'req \<Rightarrow> error + pagination"

text \<open>
  What the handlers read of an HTTP response: the status code, what \<^verbatim>\<open>io.ReadAll\<close> gives
  for the body, and the \<^verbatim>\<open>Content-Type\<close> header. Of a git reference they read
  \<^verbatim>\<open>Object.SHA\<close>, through two pointers that may be nil; of the reply of
  \<^verbatim>\<open>GetContents\<close> the file, its \<^verbatim>\<open>SHA\<close> (\<open>None\<close> when the file or the field is nil),
  the directory listing and the response.
\<close>

record response =
  StatusCode :: nat
  Body :: "error + string"
  ContentType :: string

datatype gitobject = GitObject (SHA: "string option")

datatype reference = Reference (Object: "gitobject option")

record 'j contents =
  fileContent :: 'j
  fileContent_SHA :: "string option"
  dirContent :: 'j
  contentsResp :: response

record ContentOpts =
  opts_Ref :: string
  opts_SHA :: string

text \<open>
  GitHub is the record \<open>github\<close>: one field for each call the five handlers make. The
  provider has a state \<open>'p\<close>, so that it may answer the same call differently the next
  time; \<open>'j\<close> is the type of what it returns (commits, branches, files), of which the
  handlers only need \<^verbatim>\<open>json.Marshal\<close>. \<^verbatim>\<open>url.JoinPath\<close> and the base64 encoder are
  library functions and are fields as well.
\<close>

record ('p, 'j) github =
  getClient :: "'p \<Rightarrow> error option \<times> 'p"
  getRawClient :: "'p \<Rightarrow> error option \<times> 'p"
  Repositories_GetCommit :: "string \<Rightarrow> string \<Rightarrow> string \<Rightarrow> pagination \<Rightarrow> 'p \<Rightarrow> (error + 'j \<times> response) \<times> 'p"
  Repositories_ListCommits :: "string \<Rightarrow> string \<Rightarrow> string \<Rightarrow> string \<Rightarrow> pagination \<Rightarrow> 'p \<Rightarrow> (error + 'j \<times> response) \<times> 'p"
  Repositories_ListBranches :: "string \<Rightarrow> string \<Rightarrow> pagination \<Rightarrow> 'p \<Rightarrow> (error + 'j \<times> response) \<times> 'p"
  Repositories_Get :: "string \<Rightarrow> string \<Rightarrow> 'p \<Rightarrow> (error + string option) \<times> 'p"
  Repositories_GetContents :: "string \<Rightarrow> string \<Rightarrow> string \<Rightarrow> string \<Rightarrow> 'p \<Rightarrow> (error + 'j contents) \<times> 'p"
  Git_GetRef :: "string \<Rightarrow> string \<Rightarrow> string \<Rightarrow> 'p \<Rightarrow> (error + reference) \<times> 'p"
  Git_CreateRef :: "string \<Rightarrow> string \<Rightarrow> string \<Rightarrow> string option \<Rightarrow> 'p \<Rightarrow> (error + 'j) \<times> 'p"
  GetRawContent :: "string \<Rightarrow> string \<Rightarrow> string \<Rightarrow> ContentOpts \<Rightarrow> 'p \<Rightarrow> (error + response) \<times> 'p"
  json_Marshal :: "'j \<Rightarrow> error + string"
  url_JoinPath :: "string \<Rightarrow> string list \<Rightarrow> error + string"
  base64_EncodeToString :: "string \<Rightarrow> string"

text \<open>
  A handler run leaves a trace: \<open>ValidatorCheck\<close> for the call of
  \<^verbatim>\<open>validator.IsRepositoryAccessible\<close> with its argument, and one event for each call to
  the provider side, with the API method, owner and repo. A handler returns a tool result,
  a Go error, or panics on a nil pointer.
\<close>

datatype event =
    ValidatorCheck string
  | GetClient
  | GetRawClient
  | ProviderCall string string string

datatype resource =
    TextResourceContents string string string
  | BlobResourceContents string string string

datatype tool_result =
    ToolResultError string
  | ToolResultText string
  | ToolResultResource string resource
  | GitHubAPIErrorResponse string error

datatype outcome = Result tool_result | Failure error | Panic

text \<open>
  An action takes the provider's state and returns its trace, its value and the new state.
\<close>

type_synonym ('p, 'a) act = "'p \<Rightarrow> event list \<times> 'a \<times> 'p"

definition ret :: "'a \<Rightarrow> ('p, 'a) act" where
  "ret x p = ([], x, p)"

definition call :: "event \<Rightarrow> ('p \<Rightarrow> 'a \<times> 'p) \<Rightarrow> ('p, 'a) act" where
  "call ev oracle p = (case oracle p of (r, p') \<Rightarrow> ([ev], r, p'))"

definition andThen :: "('p, 'a) act \<Rightarrow> ('a \<Rightarrow> ('p, 'b) act) \<Rightarrow> ('p, 'b) act" where
  "andThen m f p =
     (case m p of (evs, x, p') \<Rightarrow>
        (case f x p' of (evs', y, p'') \<Rightarrow> (evs @ evs', y, p'')))"

text \<open>
  The five \<^verbatim>\<open>...WithValidation\<close> handlers open with the same eighteen lines: read
  \<^verbatim>\<open>owner\<close> and \<^verbatim>\<open>repo\<close>, build \<^verbatim>\<open>github.com/<owner>/<repo>\<close>, ask the validator,
  and return on an error or on \<^verbatim>\<open>false\<close>. \<open>accessValidation\<close> is that block; \<open>work\<close>
  is the rest of the handler, which gets \<^verbatim>\<open>owner\<close> and \<^verbatim>\<open>repo\<close>.
\<close>

definition accessValidation ::
  "'req params \<Rightarrow> url_parser \<Rightarrow> Validator \<Rightarrow> 'req \<Rightarrow> (string \<Rightarrow> string \<Rightarrow> ('p, outcome) act)
     \<Rightarrow> ('p, outcome) act" where
  "accessValidation P parse validator request work p =
     (case RequiredParam P request ''owner'' of
        Inl err \<Rightarrow> ([], Result (ToolResultError (Error err)), p)
      | Inr owner \<Rightarrow>
     (case RequiredParam P request ''repo'' of
        Inl err \<Rightarrow> ([], Result (ToolResultError (Error err)), p)
      | Inr repo \<Rightarrow>
     (let repoURL = ''github.com/'' @ owner @ ''/'' @ repo in
      case IsRepositoryAccessible parse validator repoURL of
        (accessible, Some err) \<Rightarrow>
          ([ValidatorCheck repoURL],
           Result (ToolResultError (''Failed to validate repository access: '' @ Error err)), p)
      | (accessible, None) \<Rightarrow>
          if \<not> accessible then
            ([ValidatorCheck repoURL],
             Result (ToolResultError (''Access denied: Repository '' @ owner @ ''/'' @ repo
                                        @ '' is not accessible to the current user'')), p)
          else (case work owner repo p of
                  (evs, out, p') \<Rightarrow> (ValidatorCheck repoURL # evs, out, p')))))"

text \<open>
  The rest of each handler, as written after the access validation block.
\<close>

definition getCommit_work ::
  "'req params \<Rightarrow> ('p, 'j) github \<Rightarrow> 'req \<Rightarrow> string \<Rightarrow> string \<Rightarrow> ('p, outcome) act" where
  "getCommit_work P gh request owner repo =
     (case RequiredParam P request ''sha'' of
        Inl err \<Rightarrow> ret (Result (ToolResultError (Error err)))
      | Inr sha \<Rightarrow>
     (case OptionalPaginationParams P request of
        Inl err \<Rightarrow> ret (Result (ToolResultError (Error err)))
      | Inr pagination \<Rightarrow>
     andThen (call GetClient (getClient gh)) (\<lambda>clientErr.
     case clientErr of
       Some err \<Rightarrow> ret (Failure (ErrWrap ''failed to get GitHub client'' err))
     | None \<Rightarrow>
     andThen (call (ProviderCall ''Repositories.GetCommit'' owner repo)
                   (Repositories_GetCommit gh owner repo sha pagination)) (\<lambda>reply.
     case reply of
       Inl err \<Rightarrow> ret (Result (GitHubAPIErrorResponse (''failed to get commit: '' @ sha) err))
     | Inr (commit, resp) \<Rightarrow>
         if StatusCode resp \<noteq> 200 then
           (case Body resp of
              Inl err \<Rightarrow> ret (Failure (ErrWrap ''failed to read response body'' err))
            | Inr body \<Rightarrow> ret (Result (ToolResultError (''failed to get commit: '' @ body))))
         else
           (case json_Marshal gh commit of
              Inl err \<Rightarrow> ret (Failure (ErrWrap ''failed to marshal response'' err))
            | Inr r \<Rightarrow> ret (Result (ToolResultText r)))))))"

definition listCommits_work ::
  "'req params \<Rightarrow> ('p, 'j) github \<Rightarrow> 'req \<Rightarrow> string \<Rightarrow> string \<Rightarrow> ('p, outcome) act" where
  "listCommits_work P gh request owner repo =
     (case OptionalParam P request ''sha'' of
        Inl err \<Rightarrow> ret (Result (ToolResultError (Error err)))
      | Inr sha \<Rightarrow>
     (case OptionalParam P request ''author'' of
        Inl err \<Rightarrow> ret (Result (ToolResultError (Error err)))
      | Inr author \<Rightarrow>
     (case OptionalPaginationParams P request of
        Inl err \<Rightarrow> ret (Result (ToolResultError (Error err)))
      | Inr pagination \<Rightarrow>
     (let perPage = (if PerPage pagination = 0 then 30 else PerPage pagination) in
     andThen (call GetClient (getClient gh)) (\<lambda>clientErr.
     case clientErr of
       Some err \<Rightarrow> ret (Failure (ErrWrap ''failed to get GitHub client'' err))
     | None \<Rightarrow>
     andThen (call (ProviderCall ''Repositories.ListCommits'' owner repo)
                   (Repositories_ListCommits gh owner repo sha author
                      \<lparr>Page = Page pagination, PerPage = perPage\<rparr>)) (\<lambda>reply.
     case reply of
       Inl err \<Rightarrow> ret (Result (GitHubAPIErrorResponse ''failed to list commits'' err))
     | Inr (commits, resp) \<Rightarrow>
         if StatusCode resp \<noteq> 200 then
           (case Body resp of
              Inl err \<Rightarrow> ret (Failure (ErrWrap ''failed to read response body'' err))
            | Inr body \<Rightarrow> ret (Result (ToolResultError (''failed to list commits: '' @ body))))
         else
           (case json_Marshal gh commits of
              Inl err \<Rightarrow> ret (Failure (ErrWrap ''failed to marshal response'' err))
            | Inr r \<Rightarrow> ret (Result (ToolResultText r)))))))))"

definition listBranches_work ::
  "'req params \<Rightarrow> ('p, 'j) github \<Rightarrow> 'req \<Rightarrow> string \<Rightarrow> string \<Rightarrow> ('p, outcome) act" where
  "listBranches_work P gh request owner repo =
     (case OptionalPaginationParams P request of
        Inl err \<Rightarrow> ret (Result (ToolResultError (Error err)))
      | Inr pagination \<Rightarrow>
     andThen (call GetClient (getClient gh)) (\<lambda>clientErr.
     case clientErr of
       Some err \<Rightarrow> ret (Failure (ErrWrap ''failed to get GitHub client'' err))
     | None \<Rightarrow>
     andThen (call (ProviderCall ''Repositories.ListBranches'' owner repo)
                   (Repositories_ListBranches gh owner repo pagination)) (\<lambda>reply.
     case reply of
       Inl err \<Rightarrow> ret (Result (GitHubAPIErrorResponse ''failed to list branches'' err))
     | Inr (branches, resp) \<Rightarrow>
         if StatusCode resp \<noteq> 200 then
           (case Body resp of
              Inl err \<Rightarrow> ret (Failure (ErrWrap ''failed to read response body'' err))
            | Inr body \<Rightarrow> ret (Result (ToolResultError (''failed to list branches: '' @ body))))
         else
           (case json_Marshal gh branches of
              Inl err \<Rightarrow> ret (Failure (ErrWrap ''failed to marshal response'' err))
            | Inr r \<Rightarrow> ret (Result (ToolResultText r))))))"

definition createBranch_from ::
  "('p, 'j) github \<Rightarrow> string \<Rightarrow> string \<Rightarrow> string \<Rightarrow> string \<Rightarrow> ('p, outcome) act" where
  "createBranch_from gh owner repo branch fromBranch =
     andThen (call (ProviderCall ''Git.GetRef'' owner repo)
                   (Git_GetRef gh owner repo (''refs/heads/'' @ fromBranch))) (\<lambda>reply.
     case reply of
       Inl err \<Rightarrow> ret (Result (GitHubAPIErrorResponse ''failed to get reference'' err))
     | Inr ref \<Rightarrow>
         (case Object ref of
            None \<Rightarrow> ret Panic
          | Some obj \<Rightarrow>
     andThen (call (ProviderCall ''Git.CreateRef'' owner repo)
                   (Git_CreateRef gh owner repo (''refs/heads/'' @ branch) (SHA obj))) (\<lambda>created.
     case created of
       Inl err \<Rightarrow> ret (Result (GitHubAPIErrorResponse ''failed to create branch'' err))
     | Inr createdRef \<Rightarrow>
         (case json_Marshal gh createdRef of
            Inl err \<Rightarrow> ret (Failure (ErrWrap ''failed to marshal response'' err))
          | Inr r \<Rightarrow> ret (Result (ToolResultText r))))))"

definition createBranch_work ::
  "'req params \<Rightarrow> ('p, 'j) github \<Rightarrow> 'req \<Rightarrow> string \<Rightarrow> string \<Rightarrow> ('p, outcome) act" where
  "createBranch_work P gh request owner repo =
     (case RequiredParam P request ''branch'' of
        Inl err \<Rightarrow> ret (Result (ToolResultError (Error err)))
      | Inr branch \<Rightarrow>
     (case OptionalParam P request ''from_branch'' of
        Inl err \<Rightarrow> ret (Result (ToolResultError (Error err)))
      | Inr fromBranch \<Rightarrow>
     andThen (call GetClient (getClient gh)) (\<lambda>clientErr.
     case clientErr of
       Some err \<Rightarrow> ret (Failure (ErrWrap ''failed to get GitHub client'' err))
     | None \<Rightarrow>
         if fromBranch = [] then
           andThen (call (ProviderCall ''Repositories.Get'' owner repo) (Repositories_Get gh owner repo))
             (\<lambda>reply.
              case reply of
                Inl err \<Rightarrow> ret (Result (GitHubAPIErrorResponse ''failed to get repository'' err))
              | Inr DefaultBranch \<Rightarrow>
                  (case DefaultBranch of
                     None \<Rightarrow> ret Panic
                   | Some defaultBranch \<Rightarrow> createBranch_from gh owner repo branch defaultBranch))
         else createBranch_from gh owner repo branch fromBranch)))"

text \<open>
  \<^verbatim>\<open>resolveGitReference\<close>. \<^verbatim>\<open>reference.GetObject().GetSHA()\<close> is nil-safe; an error
  is a 404 when it is a \<^verbatim>\<open>*github.ErrorResponse\<close> with that status; \<^verbatim>\<open>%q\<close> is
  rendered by double quotes around the string. The final lookup is made when no
  reference was fetched on the way.
\<close>

definition GetObject_GetSHA :: "reference \<Rightarrow> string" where
  "GetObject_GetSHA reference =
     (case Object reference of
        None \<Rightarrow> []
      | Some obj \<Rightarrow> (case SHA obj of None \<Rightarrow> [] | Some sha \<Rightarrow> sha))"

definition isNotFound :: "error \<Rightarrow> bool" where
  "isNotFound err = (case err of ErrGitHubResponse code msg \<Rightarrow> code = 404 | _ \<Rightarrow> False)"

definition quoted :: "string \<Rightarrow> string" where
  "quoted s = [CHR 0x22] @ s @ [CHR 0x22]"

definition finalReference ::
  "('p, 'j) github \<Rightarrow> string \<Rightarrow> string \<Rightarrow> string \<Rightarrow> ('p, error + ContentOpts) act" where
  "finalReference gh owner repo ref =
     andThen (call (ProviderCall ''Git.GetRef'' owner repo) (Git_GetRef gh owner repo ref)) (\<lambda>reply.
     case reply of
       Inl err \<Rightarrow> ret (Inl (ErrWrap (''failed to get final reference for '' @ quoted ref) err))
     | Inr reference \<Rightarrow> ret (Inr \<lparr>opts_Ref = ref, opts_SHA = GetObject_GetSHA reference\<rparr>))"

definition resolveGitReference ::
  "('p, 'j) github \<Rightarrow> string \<Rightarrow> string \<Rightarrow> string \<Rightarrow> string \<Rightarrow> ('p, error + ContentOpts) act" where
  "resolveGitReference gh owner repo ref sha =
     (if sha \<noteq> [] then ret (Inr \<lparr>opts_Ref = [], opts_SHA = sha\<rparr>)
      else (let originalRef = ref in
        if originalRef = [] then
          andThen (call (ProviderCall ''Repositories.Get'' owner repo) (Repositories_Get gh owner repo))
            (\<lambda>reply.
             case reply of
               Inl err \<Rightarrow> ret (Inl (ErrWrap ''failed to get repository info'' err))
             | Inr DefaultBranch \<Rightarrow>
                 finalReference gh owner repo
                   (''refs/heads/'' @ (case DefaultBranch of None \<Rightarrow> [] | Some b \<Rightarrow> b)))
        else if strings_HasPrefix originalRef ''refs/'' then finalReference gh owner repo ref
        else if strings_HasPrefix originalRef ''heads/'' \<or> strings_HasPrefix originalRef ''tags/''
          then finalReference gh owner repo (''refs/'' @ originalRef)
        else (let branchRef = ''refs/heads/'' @ originalRef in
          andThen (call (ProviderCall ''Git.GetRef'' owner repo) (Git_GetRef gh owner repo branchRef))
            (\<lambda>reply.
             case reply of
               Inr reference \<Rightarrow>
                 ret (Inr \<lparr>opts_Ref = branchRef, opts_SHA = GetObject_GetSHA reference\<rparr>)
             | Inl err \<Rightarrow>
                 if isNotFound err then
                   (let tagRef = ''refs/tags/'' @ originalRef in
                    andThen (call (ProviderCall ''Git.GetRef'' owner repo)
                                  (Git_GetRef gh owner repo tagRef))
                      (\<lambda>reply2.
                       case reply2 of
                         Inr reference \<Rightarrow>
                           ret (Inr \<lparr>opts_Ref = tagRef, opts_SHA = GetObject_GetSHA reference\<rparr>)
                       | Inl err2 \<Rightarrow>
                           if isNotFound err2 then
                             ret (Inl (ErrExternal (''could not resolve ref '' @ quoted originalRef
                                                     @ '' as a branch or a tag'')))
                           else
                             ret (Inl (ErrWrap (''failed to get reference for tag '' @ [CHR 0x27]
                                                 @ originalRef @ [CHR 0x27]) err2))))
                 else
                   ret (Inl (ErrWrap (''failed to get reference for branch '' @ [CHR 0x27]
                                       @ originalRef @ [CHR 0x27]) err))))))"

text \<open>
  \<^verbatim>\<open>GetFileContentsWithValidation\<close> after the gate, in three parts: the attempt at the
  raw content (\<open>None\<close> when the handler falls through), the directory listing, and the
  final \<^verbatim>\<open>GetContents\<close>.
\<close>

definition getFileContents_final ::
  "('p, 'j) github \<Rightarrow> string \<Rightarrow> string \<Rightarrow> string \<Rightarrow> string \<Rightarrow> ('p, outcome) act" where
  "getFileContents_final gh owner repo path ref =
     andThen (call (ProviderCall ''Repositories.GetContents'' owner repo)
                   (Repositories_GetContents gh owner repo path ref)) (\<lambda>reply.
     case reply of
       Inl err \<Rightarrow> ret (Result (GitHubAPIErrorResponse ''failed to get file contents'' err))
     | Inr c \<Rightarrow>
         (case json_Marshal gh (fileContent c) of
            Inl err \<Rightarrow> ret (Result (ToolResultError ''failed to marshal response''))
          | Inr r \<Rightarrow> ret (Result (ToolResultText r))))"

definition getFileContents_directory ::
  "('p, 'j) github \<Rightarrow> string \<Rightarrow> string \<Rightarrow> string \<Rightarrow> string \<Rightarrow> ('p, outcome) act" where
  "getFileContents_directory gh owner repo path ref =
     (if strings_HasSuffix path ''/'' then
        andThen (call (ProviderCall ''Repositories.GetContents'' owner repo)
                      (Repositories_GetContents gh owner repo path ref)) (\<lambda>reply.
        case reply of
          Inr c \<Rightarrow>
            if StatusCode (contentsResp c) = 200 then
              (case json_Marshal gh (dirContent c) of
                 Inl err \<Rightarrow> ret (Result (ToolResultError ''failed to marshal response''))
               | Inr r \<Rightarrow> ret (Result (ToolResultText r)))
            else getFileContents_final gh owner repo path ref
        | Inl err \<Rightarrow> getFileContents_final gh owner repo path ref)
      else getFileContents_final gh owner repo path ref)"

definition getFileContents_raw ::
  "('p, 'j) github \<Rightarrow> string \<Rightarrow> string \<Rightarrow> string \<Rightarrow> string \<Rightarrow> string \<Rightarrow> ContentOpts
     \<Rightarrow> ('p, outcome option) act" where
  "getFileContents_raw gh owner repo path ref sha rawOpts =
     (if path \<noteq> [] \<and> \<not> strings_HasSuffix path ''/'' then
        andThen (call (ProviderCall ''Repositories.GetContents'' owner repo)
                      (Repositories_GetContents gh owner repo path ref)) (\<lambda>reply.
        case reply of
          Inl err \<Rightarrow> ret (Some (Result (GitHubAPIErrorResponse ''failed to get file SHA'' err)))
        | Inr c \<Rightarrow>
        (case fileContent_SHA c of
           None \<Rightarrow> ret (Some (Result (ToolResultError ''file content SHA is nil'')))
         | Some fileSHA \<Rightarrow>
        andThen (call GetRawClient (getRawClient gh)) (\<lambda>rawErr.
        case rawErr of
          Some err \<Rightarrow> ret (Some (Result (ToolResultError ''failed to get GitHub raw content client'')))
        | None \<Rightarrow>
        andThen (call (ProviderCall ''GetRawContent'' owner repo)
                      (GetRawContent gh owner repo path rawOpts)) (\<lambda>rawReply.
        case rawReply of
          Inl err \<Rightarrow> ret (Some (Result (ToolResultError ''failed to get raw repository content'')))
        | Inr resp \<Rightarrow>
            if StatusCode resp = 200 then
              (case Body resp of
                 Inl err \<Rightarrow> ret (Some (Result (ToolResultError ''failed to read response body'')))
               | Inr body \<Rightarrow>
              (let contentType = ContentType resp in
               case (if sha \<noteq> [] then
                       url_JoinPath gh ''repo://'' [owner, repo, ''sha'', sha, ''contents'', path]
                     else if ref \<noteq> [] then
                       url_JoinPath gh ''repo://'' [owner, repo, ref, ''contents'', path]
                     else url_JoinPath gh ''repo://'' [owner, repo, ''contents'', path]) of
                 Inl err \<Rightarrow> ret (Some (Failure (ErrWrap ''failed to create resource URI'' err)))
               | Inr resourceURI \<Rightarrow>
                   if strings_HasPrefix contentType ''application''
                      \<or> strings_HasPrefix contentType ''text'' then
                     (if fileSHA \<noteq> [] then
                        ret (Some (Result (ToolResultResource
                              (''successfully downloaded text file (SHA: '' @ fileSHA @ '')'')
                              (TextResourceContents resourceURI body contentType))))
                      else
                        ret (Some (Result (ToolResultResource ''successfully downloaded text file''
                              (TextResourceContents resourceURI body contentType)))))
                   else
                     (if fileSHA \<noteq> [] then
                        ret (Some (Result (ToolResultResource
                              (''successfully downloaded binary file (SHA: '' @ fileSHA @ '')'')
                              (BlobResourceContents resourceURI (base64_EncodeToString gh body)
                                 contentType))))
                      else
                        ret (Some (Result (ToolResultResource ''successfully downloaded binary file''
                              (BlobResourceContents resourceURI (base64_EncodeToString gh body)
                                 contentType)))))))
            else ret None))))
      else ret None)"

definition getFileContents_work ::
  "'req params \<Rightarrow> ('p, 'j) github \<Rightarrow> 'req \<Rightarrow> string \<Rightarrow> string \<Rightarrow> ('p, outcome) act" where
  "getFileContents_work P gh request owner repo =
     (case RequiredParam P request ''path'' of
        Inl err \<Rightarrow> ret (Result (ToolResultError (Error err)))
      | Inr path \<Rightarrow>
     (case OptionalParam P request ''ref'' of
        Inl err \<Rightarrow> ret (Result (ToolResultError (Error err)))
      | Inr ref \<Rightarrow>
     (case OptionalParam P request ''sha'' of
        Inl err \<Rightarrow> ret (Result (ToolResultError (Error err)))
      | Inr sha \<Rightarrow>
     andThen (call GetClient (getClient gh)) (\<lambda>clientErr.
     case clientErr of
       Some err \<Rightarrow> ret (Result (ToolResultError ''failed to get GitHub client''))
     | None \<Rightarrow>
     andThen (resolveGitReference gh owner repo ref sha) (\<lambda>resolved.
     case resolved of
       Inl err \<Rightarrow> ret (Result (ToolResultError (''failed to resolve git reference: '' @ Error err)))
     | Inr rawOpts \<Rightarrow>
     andThen (getFileContents_raw gh owner repo path ref sha rawOpts) (\<lambda>returned.
     case returned of
       Some out \<Rightarrow> ret out
     | None \<Rightarrow>
         getFileContents_directory gh owner repo path
           (if opts_SHA rawOpts \<noteq> [] then opts_SHA rawOpts else ref)))))))"

text \<open>
  The five handlers, and the handler of each gated operation.
\<close>

datatype gated_operation = get_file_contents | get_commit | list_commits | list_branches | create_branch

definition GetFileContentsWithValidation ::
  "'req params \<Rightarrow> ('p, 'j) github \<Rightarrow> url_parser \<Rightarrow> Validator \<Rightarrow> 'req \<Rightarrow> ('p, outcome) act" where
  "GetFileContentsWithValidation P gh parse validator request =
     accessValidation P parse validator request (getFileContents_work P gh request)"

definition GetCommitWithValidation ::
  "'req params \<Rightarrow> ('p, 'j) github \<Rightarrow> url_parser \<Rightarrow> Validator \<Rightarrow> 'req \<Rightarrow> ('p, outcome) act" where
  "GetCommitWithValidation P gh parse validator request =
     accessValidation P parse validator request (getCommit_work P gh request)"

definition ListCommitsWithValidation ::
  "'req params \<Rightarrow> ('p, 'j) github \<Rightarrow> url_parser \<Rightarrow> Validator \<Rightarrow> 'req \<Rightarrow> ('p, outcome) act" where
  "ListCommitsWithValidation P gh parse validator request =
     accessValidation P parse validator request (listCommits_work P gh request)"

definition ListBranchesWithValidation ::
  "'req params \<Rightarrow> ('p, 'j) github \<Rightarrow> url_parser \<Rightarrow> Validator \<Rightarrow> 'req \<Rightarrow> ('p, outcome) act" where
  "ListBranchesWithValidation P gh parse validator request =
     accessValidation P parse validator request (listBranches_work P gh request)"

definition CreateBranchWithValidation ::
  "'req params \<Rightarrow> ('p, 'j) github \<Rightarrow> url_parser \<Rightarrow> Validator \<Rightarrow> 'req \<Rightarrow> ('p, outcome) act" where
  "CreateBranchWithValidation P gh parse validator request =
     accessValidation P parse validator request (createBranch_work P gh request)"

fun handler ::
  "gated_operation \<Rightarrow> 'req params \<Rightarrow> ('p, 'j) github \<Rightarrow> url_parser \<Rightarrow> Validator \<Rightarrow> 'req
     \<Rightarrow> ('p, outcome) act" where
  "handler get_file_contents = GetFileContentsWithValidation"
| "handler get_commit = GetCommitWithValidation"
| "handler list_commits = ListCommitsWithValidation"
| "handler list_branches = ListBranchesWithValidation"
| "handler create_branch = CreateBranchWithValidation"

section \<open>Runs of a validator, and the backends of the examples\<close>

text \<open>
  \<^verbatim>\<open>Initialize\<close> is the only method that writes the record:
  \<^verbatim>\<open>IsRepositoryAccessible\<close> and \<^verbatim>\<open>GetAccessibleRepositories\<close> read it. A run is
  therefore a sequence of \<^verbatim>\<open>Initialize\<close> calls, each against the service as it is at
  that moment; a call that ends the process ends the run.
\<close>

fun run :: "backend list \<Rightarrow> Validator \<Rightarrow> Validator" where
  "run [] v = v"
| "run (b # bs) v =
     (case snd (Initialize b v) of
        Exit \<Rightarrow> v
      | Return (v', err) \<Rightarrow> run bs v')"

definition repoKeyForm :: "string \<Rightarrow> bool" where
  "repoKeyForm key = (\<exists>org repo. org \<noteq> [] \<and> repo \<noteq> [] \<and> key = ''github.com/'' @ org @ ''/'' @ repo)"

text \<open>What the loop of \<^verbatim>\<open>GetAllAccessibleRepos\<close> reads off one output node.\<close>

definition propOr :: "node_properties \<Rightarrow> string \<Rightarrow> string" where
  "propOr properties key = (case properties key of Some val \<Rightarrow> val | None \<Rightarrow> [])"

definition complete :: "node_properties \<Rightarrow> bool" where
  "complete properties = (propOr properties ''name'' \<noteq> [] \<and> propOr properties ''org'' \<noteq> [])"

definition toRepository :: "node_properties \<Rightarrow> repository" where
  "toRepository properties =
     \<lparr>repo_field = propOr properties ''name'', org_field = propOr properties ''org''\<rparr>"


definition backend_down :: backend where
  "backend_down = \<lparr>grpc_NewClient = None, pb_NewSyncClient = None,
     Traverse = (\<lambda>email. Inl (ErrExternal ''rpc error: code = Unavailable''))\<rparr>"

definition backend_empty :: backend where
  "backend_empty = \<lparr>grpc_NewClient = None, pb_NewSyncClient = None, Traverse = (\<lambda>email. Inr [])\<rparr>"

definition backend_sample :: backend where
  "backend_sample = \<lparr>grpc_NewClient = None, pb_NewSyncClient = None,
     Traverse = (\<lambda>email. Inr [[''org'' \<mapsto> ''alice'', ''name'' \<mapsto> ''repo1''],
                              [''org'' \<mapsto> ''org''],
                              [''org'' \<mapsto> ''org'', ''name'' \<mapsto> ''public''],
                              [''org'' \<mapsto> [], ''name'' \<mapsto> ''orphan'']])\<rparr>"

definition backend_unnormalized :: backend where
  "backend_unnormalized = \<lparr>grpc_NewClient = None, pb_NewSyncClient = None,
     Traverse = (\<lambda>email. Inr [[''org'' \<mapsto> ''org'', ''name'' \<mapsto> ''repo.git''],
                              [''org'' \<mapsto> ''a/b'', ''name'' \<mapsto> ''c'']])\<rparr>"

fun is_provider_call :: "event \<Rightarrow> bool" where
  "is_provider_call (ValidatorCheck repoURL) = False"
| "is_provider_call GetClient = True"
| "is_provider_call GetRawClient = True"
| "is_provider_call (ProviderCall method owner repo) = True"

text \<open>
  For the examples: requests are maps from parameter names to strings, the provider
  counts its calls and always answers, and the validator knows one repository.
\<close>

definition sample_params :: "(string \<rightharpoonup> string) params" where
  "sample_params =
     \<lparr>RequiredParam = (\<lambda>request name.
          case request name of
            None \<Rightarrow> Inl (ErrExternal (''missing required parameter: '' @ name))
          | Some val \<Rightarrow> if val = [] then Inl (ErrExternal (''missing required parameter: '' @ name))
                        else Inr val),
       OptionalParam = (\<lambda>request name. case request name of None \<Rightarrow> Inr [] | Some val \<Rightarrow> Inr val),
       OptionalPaginationParams = (\<lambda>request. Inr \<lparr>Page = 1, PerPage = 30\<rparr>)\<rparr>"

definition sample_response :: response where
  "sample_response = \<lparr>StatusCode = 200, Body = Inr [], ContentType = ''application/json''\<rparr>"

definition sample_github :: "(nat, string) github" where
  "sample_github =
     \<lparr>getClient = (\<lambda>p. (None, Suc p)),
      getRawClient = (\<lambda>p. (None, Suc p)),
      Repositories_GetCommit = (\<lambda>owner repo sha opts p. (Inr (''commit '' @ sha, sample_response), Suc p)),
      Repositories_ListCommits = (\<lambda>owner repo sha author opts p. (Inr (''commits'', sample_response), Suc p)),
      Repositories_ListBranches = (\<lambda>owner repo opts p. (Inr (''branches'', sample_response), Suc p)),
      Repositories_Get = (\<lambda>owner repo p. (Inr (Some ''main''), Suc p)),
      Repositories_GetContents = (\<lambda>owner repo path ref p.
        (Inr \<lparr>fileContent = ''file'', fileContent_SHA = Some ''abc'', dirContent = ''dir'',
              contentsResp = sample_response\<rparr>, Suc p)),
      Git_GetRef = (\<lambda>owner repo ref p. (Inr (Reference (Some (GitObject (Some ''abc'')))), Suc p)),
      Git_CreateRef = (\<lambda>owner repo ref sha p. (Inr (''created '' @ ref), Suc p)),
      GetRawContent = (\<lambda>owner repo path opts p. (Inr sample_response, Suc p)),
      json_Marshal = Inr,
      url_JoinPath = (\<lambda>base elems. Inr (base @ concat (map (\<lambda>e. ''/'' @ e) elems))),
      base64_EncodeToString = (\<lambda>s. s)\<rparr>"

definition sample_validator :: Validator where
  "sample_validator = \<lparr>userEmail = ''alice@example.com'',
     accessibleRepos = {''github.com/alice/repo1''}, initialized = True\<rparr>"

section \<open>Auxiliary lemmas\<close>

lemmas backend_eval = Initialize_def fetchAccessibleRepositories_def GetAllAccessibleRepos_def
  initialise_def newConnection_def GetOrg_def GetRepo_def NewValidator_def

lemmas normalize_eval = normalizeRepositoryURL_def url_Parse_def strings_HasPrefix_def
  strings_HasSuffix_def strings_TrimPrefix_def strings_TrimSuffix_def isValidRepoPath_def
  stringContainsCTLByte_def

lemma foldl_append_map: "foldl (\<lambda>acc r. acc @ [f r]) acc0 rs = acc0 @ map f rs"
  by (induction rs arbitrary: acc0) simp_all

lemma foldl_insert_set: "foldl (\<lambda>m r. insert r m) m0 rs = m0 \<union> set rs"
  by (induction rs arbitrary: m0) auto

lemma collectOutput_filter:
  "collectOutput outputs acc = acc @ map toRepository (filter complete outputs)"
  by (induction outputs arbitrary: acc)
     (simp_all add: complete_def toRepository_def propOr_def Let_def)

lemma GetAll_cases:
  "GetAllAccessibleRepos b email = (calls, Return (Inr repos)) \<Longrightarrow>
   \<exists>outputs. Traverse b email = Inr outputs \<and> repos = collectOutput outputs []"
  by (auto simp: GetAllAccessibleRepos_def split: prod.splits exec.splits sum.splits)

lemma Initialize_fetch_ok:
  "\<not> initialized v \<Longrightarrow> GetAllAccessibleRepos b (userEmail v) = (calls, Return (Inr repos)) \<Longrightarrow>
   Initialize b v =
     (calls, Return (v\<lparr>accessibleRepos := (\<lambda>r. ''github.com/'' @ GetOrg r @ ''/'' @ GetRepo r) ` set repos,
                       initialized := True\<rparr>, None))"
  by (simp add: Initialize_def fetchAccessibleRepositories_def foldl_append_map foldl_insert_set)

lemma Initialize_fetch_err:
  "\<not> initialized v \<Longrightarrow> GetAllAccessibleRepos b (userEmail v) = (calls, Return (Inl err)) \<Longrightarrow>
   Initialize b v = (calls, Return (v, Some (ErrFetch (ErrFetch err))))"
  by (simp add: Initialize_def fetchAccessibleRepositories_def)

lemma Initialize_exit:
  "\<not> initialized v \<Longrightarrow> GetAllAccessibleRepos b (userEmail v) = (calls, Exit) \<Longrightarrow>
   Initialize b v = (calls, Exit)"
  by (simp add: Initialize_def fetchAccessibleRepositories_def)

lemma collectOutput_keys:
  "r \<in> set (collectOutput outputs []) \<Longrightarrow> repoKeyForm (''github.com/'' @ GetOrg r @ ''/'' @ GetRepo r)"
  by (auto simp: collectOutput_filter complete_def toRepository_def GetOrg_def GetRepo_def repoKeyForm_def)

lemma Initialize_keys:
  assumes "snd (Initialize b v) = Return (v', e)"
    and "\<forall>key \<in> accessibleRepos v. repoKeyForm key"
  shows "\<forall>key \<in> accessibleRepos v'. repoKeyForm key"
proof (cases "initialized v")
  case True
  with assms show ?thesis by (simp add: Initialize_def)
next
  case False
  obtain calls res where g: "GetAllAccessibleRepos b (userEmail v) = (calls, res)"
    by (cases "GetAllAccessibleRepos b (userEmail v)")
  show ?thesis
  proof (cases res)
    case Exit
    with False g assms show ?thesis by (simp add: Initialize_exit)
  next
    case (Return x)
    show ?thesis
    proof (cases x)
      case (Inl err)
      with False g Return assms show ?thesis by (simp add: Initialize_fetch_err)
    next
      case (Inr repos)
      with False g Return have "Initialize b v =
        (calls, Return (v\<lparr>accessibleRepos := (\<lambda>r. ''github.com/'' @ GetOrg r @ ''/'' @ GetRepo r) ` set repos,
                       initialized := True\<rparr>, None))"
        by (simp add: Initialize_fetch_ok)
      with assms(1) have v': "accessibleRepos v' = (\<lambda>r. ''github.com/'' @ GetOrg r @ ''/'' @ GetRepo r) ` set repos"
        by auto
      from g Return Inr obtain outputs where outs: "repos = collectOutput outputs []"
        using GetAll_cases by blast
      show ?thesis
      proof
        fix key
        assume "key \<in> accessibleRepos v'"
        then have "key \<in> (\<lambda>r. ''github.com/'' @ GetOrg r @ ''/'' @ GetRepo r) ` set repos"
          by (simp only: v')
        then obtain r where r: "r \<in> set repos"
          and key: "key = ''github.com/'' @ GetOrg r @ ''/'' @ GetRepo r"
          by (rule imageE)
        from r outs have "r \<in> set (collectOutput outputs [])" by simp
        then have "repoKeyForm (''github.com/'' @ GetOrg r @ ''/'' @ GetRepo r)"
          by (rule collectOutput_keys)
        with key show "repoKeyForm key" by simp
      qed
    qed
  qed
qed

lemma run_keys:
  "\<forall>key \<in> accessibleRepos v. repoKeyForm key \<Longrightarrow> \<forall>key \<in> accessibleRepos (run bs v). repoKeyForm key"
proof (induction bs arbitrary: v)
  case Nil
  then show ?case by simp
next
  case (Cons b bs)
  show ?case
  proof (cases "snd (Initialize b v)")
    case Exit
    with Cons.prems show ?thesis by simp
  next
    case (Return x)
    obtain v' e where x: "x = (v', e)" by (cases x)
    with Return Cons.prems have "\<forall>key \<in> accessibleRepos v'. repoKeyForm key"
      using Initialize_keys by blast
    then have "\<forall>key \<in> accessibleRepos (run bs v'). repoKeyForm key" by (rule Cons.IH)
    with Return x show ?thesis by simp
  qed
qed

lemma GetAll_drops_incomplete:
  "initialise b = (calls, Return ()) \<Longrightarrow> Traverse b email = Inr outputs \<Longrightarrow>
   GetAllAccessibleRepos b email
     = (calls @ [TraverseCall email], Return (Inr (map toRepository (filter complete outputs))))"
  by (simp add: GetAllAccessibleRepos_def collectOutput_filter)


lemma Count_append: "strings_Count (xs @ ys) c = strings_Count xs c + strings_Count ys c"
  by (induction xs) simp_all

lemma Split_nonempty: "strings_Split s c \<noteq> []"
  by (induction s) (simp_all split: list.splits)

lemma length_Split: "length (strings_Split s c) = Suc (strings_Count s c)"
  by (induction s) (auto split: list.splits)

lemma Count_TrimSuffix:
  assumes "strings_Count p c = 0"
  shows "strings_Count (strings_TrimSuffix s p) c = strings_Count s c"
proof (cases "strings_HasSuffix s p")
  case True
  then have d: "drop (length s - length p) s = p"
    by (simp add: strings_HasSuffix_def)
  have "strings_Count s c
          = strings_Count (take (length s - length p) s @ drop (length s - length p) s) c"
    by (simp only: append_take_drop_id)
  also have "\<dots> = strings_Count (take (length s - length p) s) c + strings_Count p c"
    by (simp only: Count_append d)
  finally show ?thesis using True assms by (simp add: strings_TrimSuffix_def)
next
  case False
  then show ?thesis by (simp add: strings_TrimSuffix_def)
qed

lemma Count_TrimSuffix_git:
  "strings_Count (strings_TrimSuffix s ''.git'') CHR ''/'' = strings_Count s CHR ''/''"
  by (rule Count_TrimSuffix) simp

lemma isValidRepoPath_Count:
  "isValidRepoPath path \<Longrightarrow> strings_Count path CHR ''/'' = 1"
  by (simp add: isValidRepoPath_def Let_def length_Split split: if_splits)

lemma TrimPrefix_append: "strings_TrimPrefix (p @ s) p = s"
  by (simp add: strings_TrimPrefix_def strings_HasPrefix_def)

lemma HasPrefix_append: "strings_HasPrefix (p @ s) p"
  by (simp add: strings_HasPrefix_def)

lemma not_valid_many:
  assumes "2 < length (strings_Split path CHR ''/'')"
  shows "\<not> isValidRepoPath (strings_TrimSuffix path ''.git'')"
proof
  assume "isValidRepoPath (strings_TrimSuffix path ''.git'')"
  then have "strings_Count (strings_TrimSuffix path ''.git'') CHR ''/'' = 1"
    by (rule isValidRepoPath_Count)
  then have "strings_Count path CHR ''/'' = 1" by (simp only: Count_TrimSuffix_git)
  with assms show False by (simp add: length_Split)
qed

lemma normalize_scheme:
  assumes "strings_HasPrefix repoURL ''http://'' \<or> strings_HasPrefix repoURL ''https://''"
  shows "normalizeRepositoryURL parse repoURL =
     (case parse repoURL of
        Inl err \<Rightarrow> Inl (ErrInvalidURLFormat err)
      | Inr u \<Rightarrow>
          if Host u \<noteq> ''github.com'' then Inl (ErrUnsupportedFormat repoURL)
          else if isValidRepoPath (strings_TrimSuffix (strings_TrimPrefix (Path u) ''/'') ''.git'')
          then Inr (''github.com/'' @ strings_TrimSuffix (strings_TrimPrefix (Path u) ''/'') ''.git'')
          else Inl (ErrUnsupportedFormat repoURL))"
proof -
  have ne: "repoURL \<noteq> []"
  proof
    assume "repoURL = []"
    with assms show False by (simp add: strings_HasPrefix_def)
  qed
  have "normalizeRepositoryURL parse repoURL =
        (case parse repoURL of
           Inl err \<Rightarrow> Inl (ErrInvalidURLFormat err)
         | Inr parsedURL \<Rightarrow>
             if Host parsedURL \<noteq> ''github.com'' then Inl (ErrUnsupportedFormat repoURL)
             else (let path = strings_TrimPrefix (Path parsedURL) ''/'';
                       path = strings_TrimSuffix path ''.git''
                   in if \<not> isValidRepoPath path then Inl (ErrUnsupportedFormat repoURL)
                      else Inr (''github.com/'' @ path)))"
    unfolding normalizeRepositoryURL_def using ne assms by (simp only: if_False if_True)
  then show ?thesis by (simp add: Let_def split: sum.splits)
qed

lemma normalize_host_prefix:
  "normalizeRepositoryURL parse (''github.com/'' @ path) =
     (if isValidRepoPath (strings_TrimSuffix path ''.git'')
      then Inr (''github.com/'' @ strings_TrimSuffix path ''.git'')
      else Inl (ErrUnsupportedFormat (''github.com/'' @ path)))"
proof -
  have a: "\<not> (strings_HasPrefix (''github.com/'' @ path) ''http://''
              \<or> strings_HasPrefix (''github.com/'' @ path) ''https://'')"
    by (simp add: strings_HasPrefix_def)
  have c: "strings_HasPrefix (''github.com/'' @ path) ''github.com/''" by (rule HasPrefix_append)
  have d: "strings_TrimPrefix (''github.com/'' @ path) ''github.com/'' = path" by (rule TrimPrefix_append)
  have e: "''github.com/'' @ path \<noteq> []" by simp
  have "normalizeRepositoryURL parse (''github.com/'' @ path) =
        (let path' = strings_TrimPrefix (''github.com/'' @ path) ''github.com/'';
             path' = strings_TrimSuffix path' ''.git''
         in if \<not> isValidRepoPath path' then Inl (ErrUnsupportedFormat (''github.com/'' @ path))
            else Inr (''github.com/'' @ path'))"
    unfolding normalizeRepositoryURL_def using a c e by (simp only: if_False if_True)
  then show ?thesis by (simp only: d Let_def) simp
qed

lemma normalize_bare:
  assumes "\<not> strings_HasPrefix repoURL ''http://''" "\<not> strings_HasPrefix repoURL ''https://''"
    "\<not> strings_HasPrefix repoURL ''github.com/''" "repoURL \<noteq> []"
  shows "normalizeRepositoryURL parse repoURL =
     (if strings_Count repoURL CHR ''/'' = 1 \<and> isValidRepoPath (strings_TrimSuffix repoURL ''.git'')
      then Inr (''github.com/'' @ strings_TrimSuffix repoURL ''.git'')
      else Inl (ErrUnsupportedFormat repoURL))"
proof -
  from assms have a: "\<not> (strings_HasPrefix repoURL ''http://'' \<or> strings_HasPrefix repoURL ''https://'')"
    by simp
  have "normalizeRepositoryURL parse repoURL =
        (if strings_Count repoURL CHR ''/'' = 1 then
          (let path = strings_TrimSuffix repoURL ''.git''
           in if \<not> isValidRepoPath path then Inl (ErrUnsupportedFormat repoURL)
              else Inr (''github.com/'' @ path))
         else Inl (ErrUnsupportedFormat repoURL))"
    unfolding normalizeRepositoryURL_def using a assms(3,4) by (simp only: if_False)
  then show ?thesis by (simp only: Let_def) simp
qed

lemma accessValidation_shape:
  assumes "accessValidation P parse validator request work p = (events, out, p')"
  shows "events = [] \<or>
         (\<exists>owner repo rest. RequiredParam P request ''owner'' = Inr owner \<and>
            RequiredParam P request ''repo'' = Inr repo \<and>
            events = ValidatorCheck (''github.com/'' @ owner @ ''/'' @ repo) # rest)"
  using assms unfolding accessValidation_def Let_def
  by (auto split: sum.splits prod.splits option.splits if_splits)

lemma accessValidation_denied:
  assumes "RequiredParam P request ''owner'' = Inr owner"
    and "RequiredParam P request ''repo'' = Inr repo"
    and "IsRepositoryAccessible parse validator (''github.com/'' @ owner @ ''/'' @ repo) = (False, None)"
  shows "accessValidation P parse validator request work p =
           ([ValidatorCheck (''github.com/'' @ owner @ ''/'' @ repo)],
            Result (ToolResultError (''Access denied: Repository '' @ owner @ ''/'' @ repo
                                       @ '' is not accessible to the current user'')), p)"
  using assms unfolding accessValidation_def Let_def by simp

lemma accessValidation_error:
  assumes "RequiredParam P request ''owner'' = Inr owner"
    and "RequiredParam P request ''repo'' = Inr repo"
    and "IsRepositoryAccessible parse validator (''github.com/'' @ owner @ ''/'' @ repo) = (accessible, Some err)"
  shows "accessValidation P parse validator request work p =
           ([ValidatorCheck (''github.com/'' @ owner @ ''/'' @ repo)],
            Result (ToolResultError (''Failed to validate repository access: '' @ Error err)), p)"
  using assms unfolding accessValidation_def Let_def by simp

lemma handler_is_gated:
  "\<exists>work. handler op P gh parse validator request = accessValidation P parse validator request work"
  by (cases op)
     (auto simp: GetFileContentsWithValidation_def GetCommitWithValidation_def
        ListCommitsWithValidation_def ListBranchesWithValidation_def CreateBranchWithValidation_def)

lemmas handler_eval = GetFileContentsWithValidation_def GetCommitWithValidation_def
  ListCommitsWithValidation_def ListBranchesWithValidation_def CreateBranchWithValidation_def
  accessValidation_def getCommit_work_def createBranch_work_def createBranch_from_def
  andThen_def call_def ret_def sample_params_def sample_github_def sample_response_def
  sample_validator_def IsRepositoryAccessible_def

section \<open>The validator's lifecycle\<close>

text \<open>
  C4. On a validator that is not initialized, \<^verbatim>\<open>IsRepositoryAccessible\<close> returns
  \<^verbatim>\<open>false\<close> together with the error "validator not initialized", for every reference
  and every URL parser: the check comes before normalization, so a malformed reference
  gets the same answer, and the result is never a bare \<^verbatim>\<open>false\<close>.
\<close>

theorem not_initialized_error:
  "\<not> initialized v \<Longrightarrow> IsRepositoryAccessible parse v repoURL = (False, Some ErrNotInitialized)"
  by (simp add: IsRepositoryAccessible_def)

theorem not_initialized_error_witness:
  "\<not> initialized (NewValidator ''test@example.com'') \<and>
   normalizeRepositoryURL url_Parse ''invalid-url'' = Inl (ErrUnsupportedFormat ''invalid-url'') \<and>
   IsRepositoryAccessible url_Parse (NewValidator ''test@example.com'') ''invalid-url''
     = (False, Some ErrNotInitialized)"
  using not_initialized_error [of "NewValidator ''test@example.com''" url_Parse "''invalid-url''"]
  by (simp add: NewValidator_def normalize_eval)



text \<open>
  C8. On a validator that is already initialized, \<^verbatim>\<open>Initialize\<close> returns success at once:
  no call to the collaborator is made (the list of calls is empty), whatever the state of
  the service, and the validator, with its set, is returned unchanged.
\<close>

theorem initialize_idempotent:
  "initialized v \<Longrightarrow> Initialize b v = ([], Return (v, None))"
  by (simp add: Initialize_def)

theorem initialize_idempotent_witness:
  "Initialize backend_sample (NewValidator ''alice@example.com'')
     = ([NewClient, NewSyncClient, TraverseCall ''alice@example.com''],
        Return (\<lparr>userEmail = ''alice@example.com'',
                 accessibleRepos = {''github.com/alice/repo1'', ''github.com/org/public''},
                 initialized = True\<rparr>, None)) \<and>
   initialized \<lparr>userEmail = ''alice@example.com'',
                accessibleRepos = {''github.com/alice/repo1'', ''github.com/org/public''},
                initialized = True\<rparr> \<and>
   Initialize backend_down \<lparr>userEmail = ''alice@example.com'',
                accessibleRepos = {''github.com/alice/repo1'', ''github.com/org/public''},
                initialized = True\<rparr>
     = ([], Return (\<lparr>userEmail = ''alice@example.com'',
                accessibleRepos = {''github.com/alice/repo1'', ''github.com/org/public''},
                initialized = True\<rparr>, None))"
  using initialize_idempotent [of "\<lparr>userEmail = ''alice@example.com'',
                accessibleRepos = {''github.com/alice/repo1'', ''github.com/org/public''},
                initialized = True\<rparr>" backend_down]
  by (simp add: backend_eval backend_sample_def insert_commute)

text \<open>
  C9. When the collaborator returns no repository, \<^verbatim>\<open>Initialize\<close> on a validator that is
  not yet initialized succeeds, the validator is initialized with an empty set, and from
  then on \<^verbatim>\<open>IsRepositoryAccessible\<close> answers \<^verbatim>\<open>false\<close> with no error for every reference
  that normalizes.
\<close>

theorem initialize_empty_backend:
  assumes "\<not> initialized v"
    and "GetAllAccessibleRepos b (userEmail v) = (calls, Return (Inr []))"
  shows "\<exists>v'. Initialize b v = (calls, Return (v', None)) \<and>
              initialized v' \<and> accessibleRepos v' = {} \<and>
              (\<forall>parse repoURL key. normalizeRepositoryURL parse repoURL = Inr key \<longrightarrow>
                   IsRepositoryAccessible parse v' repoURL = (False, None))"
  using assms by (auto simp: Initialize_fetch_ok IsRepositoryAccessible_def)

theorem initialize_empty_backend_witness:
  "\<not> initialized (NewValidator ''test@example.com'') \<and>
   GetAllAccessibleRepos backend_empty (userEmail (NewValidator ''test@example.com''))
     = ([NewClient, NewSyncClient, TraverseCall ''test@example.com''], Return (Inr [])) \<and>
   Initialize backend_empty (NewValidator ''test@example.com'')
     = ([NewClient, NewSyncClient, TraverseCall ''test@example.com''],
        Return (\<lparr>userEmail = ''test@example.com'', accessibleRepos = {}, initialized = True\<rparr>, None)) \<and>
   normalizeRepositoryURL url_Parse ''https://github.com/user/repo1.git'' = Inr ''github.com/user/repo1'' \<and>
   IsRepositoryAccessible url_Parse
       \<lparr>userEmail = ''test@example.com'', accessibleRepos = {}, initialized = True\<rparr>
       ''https://github.com/user/repo1.git'' = (False, None)"
  using initialize_empty_backend [of "NewValidator ''test@example.com''" backend_empty
      "[NewClient, NewSyncClient, TraverseCall ''test@example.com'']"]
  by (simp add: backend_eval backend_empty_def normalize_eval IsRepositoryAccessible_def)

text \<open>
  C3. The claim that each returned reference is normalized before it is stored, and
  skipped when normalization fails, does not hold. Against a service that returns
  \<^verbatim>\<open>(org, repo.git)\<close> and \<^verbatim>\<open>(a/b, c)\<close>, \<^verbatim>\<open>Initialize\<close> stores
  \<^verbatim>\<open>github.com/org/repo.git\<close>, which the normalizer would turn into
  \<^verbatim>\<open>github.com/org/repo\<close>, and \<^verbatim>\<open>github.com/a/b/c\<close>, which the normalizer rejects.
\<close>

theorem initialize_stores_unnormalized_counterexample:
  "Initialize backend_unnormalized (NewValidator ''test@example.com'')
     = ([NewClient, NewSyncClient, TraverseCall ''test@example.com''],
        Return (\<lparr>userEmail = ''test@example.com'',
                 accessibleRepos = {''github.com/org/repo.git'', ''github.com/a/b/c''},
                 initialized = True\<rparr>, None)) \<and>
   normalizeRepositoryURL url_Parse ''github.com/org/repo.git'' = Inr ''github.com/org/repo'' \<and>
   normalizeRepositoryURL url_Parse ''github.com/a/b/c'' = Inl (ErrUnsupportedFormat ''github.com/a/b/c'')"
  by (simp add: backend_eval backend_unnormalized_def normalize_eval insert_commute)

text \<open>
  C3, as the code has it. \<^verbatim>\<open>Initialize\<close> on a validator that is not yet initialized
  formats every repository the collaborator returned as \<^verbatim>\<open>github.com/<org>/<repo>\<close> and
  stores exactly these keys, without passing them through the normalizer; none is skipped
  or counted, and the call succeeds.
\<close>

theorem initialize_stores_formatted:
  assumes "\<not> initialized v"
    and "GetAllAccessibleRepos b (userEmail v) = (calls, Return (Inr repos))"
  shows "Initialize b v =
     (calls, Return (v\<lparr>accessibleRepos := {''github.com/'' @ GetOrg r @ ''/'' @ GetRepo r | r. r \<in> set repos},
                       initialized := True\<rparr>, None))"
proof -
  have "{''github.com/'' @ GetOrg r @ ''/'' @ GetRepo r | r. r \<in> set repos}
          = (\<lambda>r. ''github.com/'' @ GetOrg r @ ''/'' @ GetRepo r) ` set repos"
    by auto
  with assms show ?thesis by (simp add: Initialize_fetch_ok)
qed

theorem initialize_stores_formatted_witness:
  "\<not> initialized (NewValidator ''test@example.com'') \<and>
   GetAllAccessibleRepos backend_unnormalized (userEmail (NewValidator ''test@example.com''))
     = ([NewClient, NewSyncClient, TraverseCall ''test@example.com''],
        Return (Inr [\<lparr>repo_field = ''repo.git'', org_field = ''org''\<rparr>, \<lparr>repo_field = ''c'', org_field = ''a/b''\<rparr>])) \<and>
   Initialize backend_unnormalized (NewValidator ''test@example.com'')
     = ([NewClient, NewSyncClient, TraverseCall ''test@example.com''],
        Return (\<lparr>userEmail = ''test@example.com'',
                 accessibleRepos = {''github.com/org/repo.git'', ''github.com/a/b/c''},
                 initialized = True\<rparr>, None))"
  using initialize_stores_formatted [of "NewValidator ''test@example.com''" backend_unnormalized
      "[NewClient, NewSyncClient, TraverseCall ''test@example.com'']"
      "[\<lparr>repo_field = ''repo.git'', org_field = ''org''\<rparr>, \<lparr>repo_field = ''c'', org_field = ''a/b''\<rparr>]"]
  by (simp add: backend_eval backend_unnormalized_def insert_commute)

section \<open>The keys of the access set\<close>

text \<open>
  C10. After any run from a new validator, every key of \<^verbatim>\<open>accessibleRepos\<close> is
  \<^verbatim>\<open>github.com/<org>/<repo>\<close> with both parts non-empty. The reason is the loop of
  \<^verbatim>\<open>GetAllAccessibleRepos\<close>: when the service answers, the result is the list of the
  complete output nodes (both \<^verbatim>\<open>org\<close> and \<^verbatim>\<open>name\<close> present and non-empty), in order;
  an incomplete node is left out and the call still returns no error, and its result
  carries nothing but the list.
\<close>

theorem accessibleRepos_key_form:
  "(\<forall>key \<in> accessibleRepos (run bs (NewValidator email)). repoKeyForm key) \<and>
   (initialise b = (calls, Return ()) \<and> Traverse b email = Inr outputs \<longrightarrow>
      GetAllAccessibleRepos b email
        = (calls @ [TraverseCall email], Return (Inr (map toRepository (filter complete outputs)))))"
proof -
  have "\<forall>key \<in> accessibleRepos (NewValidator email). repoKeyForm key"
    by (simp add: NewValidator_def)
  then have "\<forall>key \<in> accessibleRepos (run bs (NewValidator email)). repoKeyForm key"
    by (rule run_keys)
  then show ?thesis by (simp add: GetAll_drops_incomplete)
qed

theorem accessibleRepos_key_form_witness:
  "accessibleRepos (run [backend_down, backend_sample, backend_unnormalized] (NewValidator ''alice@example.com''))
     = {''github.com/alice/repo1'', ''github.com/org/public''} \<and>
   repoKeyForm ''github.com/alice/repo1'' \<and> repoKeyForm ''github.com/org/public'' \<and>
   initialise backend_sample = ([NewClient, NewSyncClient], Return ()) \<and>
   Traverse backend_sample ''alice@example.com''
     = Inr [[''org'' \<mapsto> ''alice'', ''name'' \<mapsto> ''repo1''],
            [''org'' \<mapsto> ''org''],
            [''org'' \<mapsto> ''org'', ''name'' \<mapsto> ''public''],
            [''org'' \<mapsto> [], ''name'' \<mapsto> ''orphan'']] \<and>
   GetAllAccessibleRepos backend_sample ''alice@example.com''
     = ([NewClient, NewSyncClient, TraverseCall ''alice@example.com''],
        Return (Inr [\<lparr>repo_field = ''repo1'', org_field = ''alice''\<rparr>,
                     \<lparr>repo_field = ''public'', org_field = ''org''\<rparr>]))"
  using accessibleRepos_key_form [of "[backend_down, backend_sample, backend_unnormalized]"
      "''alice@example.com''" backend_sample "[NewClient, NewSyncClient]"
      "[[''org'' \<mapsto> ''alice'', ''name'' \<mapsto> ''repo1''],
            [''org'' \<mapsto> ''org''],
            [''org'' \<mapsto> ''org'', ''name'' \<mapsto> ''public''],
            [''org'' \<mapsto> [], ''name'' \<mapsto> ''orphan'']]"]
  by (simp add: backend_eval backend_sample_def backend_down_def backend_unnormalized_def insert_commute
        complete_def toRepository_def propOr_def)

section \<open>The normalizer\<close>

text \<open>
  The model against the table of \<^verbatim>\<open>TestNormalizeRepositoryURL\<close> that accompanies the
  validator: every expected result and every expected error is met.
\<close>

lemma normalize_test_table:
  "normalizeRepositoryURL url_Parse ''https://github.com/owner/repo'' = Inr ''github.com/owner/repo''"
  "normalizeRepositoryURL url_Parse ''https://github.com/owner/repo.git'' = Inr ''github.com/owner/repo''"
  "normalizeRepositoryURL url_Parse ''http://github.com/owner/repo'' = Inr ''github.com/owner/repo''"
  "normalizeRepositoryURL url_Parse ''github.com/owner/repo'' = Inr ''github.com/owner/repo''"
  "normalizeRepositoryURL url_Parse ''github.com/owner/repo.git'' = Inr ''github.com/owner/repo''"
  "normalizeRepositoryURL url_Parse ''owner/repo'' = Inr ''github.com/owner/repo''"
  "normalizeRepositoryURL url_Parse ''owner/repo.git'' = Inr ''github.com/owner/repo''"
  "normalizeRepositoryURL url_Parse [] = Inl ErrEmptyURL"
  "normalizeRepositoryURL url_Parse ''owner'' = Inl (ErrUnsupportedFormat ''owner'')"
  "normalizeRepositoryURL url_Parse ''github.com/owner/repo/extra''
     = Inl (ErrUnsupportedFormat ''github.com/owner/repo/extra'')"
  "normalizeRepositoryURL url_Parse ''https://invalid-url''
     = Inl (ErrUnsupportedFormat ''https://invalid-url'')"
  by (simp_all add: normalize_eval)

text \<open>
  C2. The normalizer keeps the letter case of owner and repo: \<^verbatim>\<open>OWNER/REPO\<close> and
  \<^verbatim>\<open>owner/repo\<close> get different keys, for every URL parser. The repository's test
  \<^verbatim>\<open>TestNormalizeRepositoryURL\<close> expects the lower-cased key.
\<close>

theorem normalize_keeps_letter_case:
  "normalizeRepositoryURL parse ''OWNER/REPO'' = Inr ''github.com/OWNER/REPO'' \<and>
   normalizeRepositoryURL parse ''owner/repo'' = Inr ''github.com/owner/repo'' \<and>
   normalizeRepositoryURL parse ''github.com/OwNeR/RePoSiToRy'' = Inr ''github.com/OwNeR/RePoSiToRy''"
  by (simp add: normalizeRepositoryURL_def strings_HasPrefix_def strings_HasSuffix_def
        strings_TrimPrefix_def strings_TrimSuffix_def isValidRepoPath_def)

text \<open>
  C5. The claim that extra path segments are accepted and discarded does not hold: the
  reference \<^verbatim>\<open>github.com/owner/repo/extra\<close> of the repository's own test is rejected,
  and so are the bare and the URL form.
\<close>

theorem extra_segments_counterexample:
  "normalizeRepositoryURL url_Parse ''github.com/owner/repo/extra''
     = Inl (ErrUnsupportedFormat ''github.com/owner/repo/extra'') \<and>
   normalizeRepositoryURL url_Parse ''owner/repo/extra''
     = Inl (ErrUnsupportedFormat ''owner/repo/extra'') \<and>
   normalizeRepositoryURL url_Parse ''https://github.com/owner/repo/tree/main''
     = Inl (ErrUnsupportedFormat ''https://github.com/owner/repo/tree/main'')"
  by (simp add: normalize_eval)

text \<open>
  C5, as the code has it. A path with more than two segments (two or more \<^verbatim>\<open>/\<close>) is
  rejected with the unsupported-format error in each of the three forms: after the
  \<^verbatim>\<open>github.com/\<close> prefix, bare, and as the path of a parsed URL (whatever its host).
\<close>

theorem extra_segments_rejected:
  assumes "2 < length (strings_Split path CHR ''/'')"
  shows "normalizeRepositoryURL parse (''github.com/'' @ path)
           = Inl (ErrUnsupportedFormat (''github.com/'' @ path)) \<and>
         (\<not> strings_HasPrefix path ''http://'' \<and> \<not> strings_HasPrefix path ''https://'' \<and>
          \<not> strings_HasPrefix path ''github.com/'' \<longrightarrow>
            normalizeRepositoryURL parse path = Inl (ErrUnsupportedFormat path)) \<and>
         (\<forall>repoURL u.
            (strings_HasPrefix repoURL ''http://'' \<or> strings_HasPrefix repoURL ''https://'') \<and>
            parse repoURL = Inr u \<and> strings_TrimPrefix (Path u) ''/'' = path \<longrightarrow>
            normalizeRepositoryURL parse repoURL = Inl (ErrUnsupportedFormat repoURL))"
proof -
  from assms have nv: "\<not> isValidRepoPath (strings_TrimSuffix path ''.git'')"
    by (rule not_valid_many)
  from assms have ne: "path \<noteq> []" by auto
  have one: "normalizeRepositoryURL parse (''github.com/'' @ path)
           = Inl (ErrUnsupportedFormat (''github.com/'' @ path))"
    using nv by (simp only: normalize_host_prefix if_False)
  have two: "normalizeRepositoryURL parse path = Inl (ErrUnsupportedFormat path)"
    if "\<not> strings_HasPrefix path ''http://''" "\<not> strings_HasPrefix path ''https://''"
       "\<not> strings_HasPrefix path ''github.com/''"
    using normalize_bare [OF that ne, of parse] nv by simp
  have three: "normalizeRepositoryURL parse repoURL = Inl (ErrUnsupportedFormat repoURL)"
    if "strings_HasPrefix repoURL ''http://'' \<or> strings_HasPrefix repoURL ''https://''"
      "parse repoURL = Inr u" "strings_TrimPrefix (Path u) ''/'' = path" for repoURL u
    using normalize_scheme [OF that(1), of parse] that(2,3) nv by simp
  from one two three show ?thesis by blast
qed

theorem extra_segments_rejected_witness:
  "2 < length (strings_Split ''owner/repo/tree/main'' CHR ''/'') \<and>
   normalizeRepositoryURL url_Parse ''github.com/owner/repo/tree/main''
     = Inl (ErrUnsupportedFormat ''github.com/owner/repo/tree/main'') \<and>
   normalizeRepositoryURL url_Parse ''owner/repo/tree/main''
     = Inl (ErrUnsupportedFormat ''owner/repo/tree/main'') \<and>
   url_Parse ''https://github.com/owner/repo/tree/main''
     = Inr \<lparr>Host = ''github.com'', Path = ''/owner/repo/tree/main''\<rparr> \<and>
   normalizeRepositoryURL url_Parse ''https://github.com/owner/repo/tree/main''
     = Inl (ErrUnsupportedFormat ''https://github.com/owner/repo/tree/main'')"
  using extra_segments_rejected [of "''owner/repo/tree/main''" url_Parse]
  by (simp add: url_Parse_def strings_HasPrefix_def strings_TrimPrefix_def stringContainsCTLByte_def)




section \<open>The access gate of the handlers\<close>

text \<open>
  C1. For each of the five gated handlers and every run of it: a call to the provider side
  (\<^verbatim>\<open>getClient\<close>, \<^verbatim>\<open>getRawClient\<close> or an API call) is preceded in the trace, strictly, by
  the validator check of the request's reference \<^verbatim>\<open>github.com/<owner>/<repo>\<close>; when
  that check returns \<^verbatim>\<open>false\<close> with no error, the handler returns the access-denied
  error result, the trace is the check alone and the provider's state is untouched; and
  when the check returns an error, the handler returns the validation-failure result,
  again without a call to the provider.
\<close>

theorem gate_before_provider:
  assumes run: "handler op P gh parse validator request p = (events, out, p')"
  shows "(\<forall>i < length events. is_provider_call (events ! i) \<longrightarrow>
            (\<exists>j < i. \<exists>owner repo.
               RequiredParam P request ''owner'' = Inr owner \<and>
               RequiredParam P request ''repo'' = Inr repo \<and>
               events ! j = ValidatorCheck (''github.com/'' @ owner @ ''/'' @ repo))) \<and>
         (\<forall>owner repo.
            RequiredParam P request ''owner'' = Inr owner \<and>
            RequiredParam P request ''repo'' = Inr repo \<and>
            IsRepositoryAccessible parse validator (''github.com/'' @ owner @ ''/'' @ repo) = (False, None) \<longrightarrow>
            events = [ValidatorCheck (''github.com/'' @ owner @ ''/'' @ repo)] \<and>
            out = Result (ToolResultError (''Access denied: Repository '' @ owner @ ''/'' @ repo
                                             @ '' is not accessible to the current user'')) \<and>
            p' = p) \<and>
         (\<forall>owner repo accessible err.
            RequiredParam P request ''owner'' = Inr owner \<and>
            RequiredParam P request ''repo'' = Inr repo \<and>
            IsRepositoryAccessible parse validator (''github.com/'' @ owner @ ''/'' @ repo)
              = (accessible, Some err) \<longrightarrow>
            events = [ValidatorCheck (''github.com/'' @ owner @ ''/'' @ repo)] \<and>
            out = Result (ToolResultError (''Failed to validate repository access: '' @ Error err)) \<and>
            p' = p)"
proof -
  obtain work where h: "handler op P gh parse validator request
                          = accessValidation P parse validator request work"
    using handler_is_gated [of op P gh parse validator request] by (elim exE)
  with run have av: "accessValidation P parse validator request work p = (events, out, p')"
    by simp
  have order: "\<exists>j < i. \<exists>owner repo.
               RequiredParam P request ''owner'' = Inr owner \<and>
               RequiredParam P request ''repo'' = Inr repo \<and>
               events ! j = ValidatorCheck (''github.com/'' @ owner @ ''/'' @ repo)"
    if i: "i < length events" and prov: "is_provider_call (events ! i)" for i
  proof -
    from i have "events \<noteq> []" by auto
    with accessValidation_shape [OF av] obtain owner repo rest
      where o: "RequiredParam P request ''owner'' = Inr owner"
        and r: "RequiredParam P request ''repo'' = Inr repo"
        and ev: "events = ValidatorCheck (''github.com/'' @ owner @ ''/'' @ repo) # rest"
      by blast
    from ev have head: "events ! 0 = ValidatorCheck (''github.com/'' @ owner @ ''/'' @ repo)"
      by simp
    have "i \<noteq> 0"
    proof
      assume "i = 0"
      with prov head show False by simp
    qed
    then have "0 < i" by simp
    with o r head show ?thesis by blast
  qed
  have denied: "events = [ValidatorCheck (''github.com/'' @ owner @ ''/'' @ repo)] \<and>
            out = Result (ToolResultError (''Access denied: Repository '' @ owner @ ''/'' @ repo
                                             @ '' is not accessible to the current user'')) \<and>
            p' = p"
    if "RequiredParam P request ''owner'' = Inr owner" "RequiredParam P request ''repo'' = Inr repo"
      "IsRepositoryAccessible parse validator (''github.com/'' @ owner @ ''/'' @ repo) = (False, None)"
    for owner repo
    using accessValidation_denied [OF that, of work p] av by simp
  have failed: "events = [ValidatorCheck (''github.com/'' @ owner @ ''/'' @ repo)] \<and>
            out = Result (ToolResultError (''Failed to validate repository access: '' @ Error err)) \<and>
            p' = p"
    if "RequiredParam P request ''owner'' = Inr owner" "RequiredParam P request ''repo'' = Inr repo"
      "IsRepositoryAccessible parse validator (''github.com/'' @ owner @ ''/'' @ repo)
         = (accessible, Some err)"
    for owner repo accessible err
    using accessValidation_error [OF that, of work p] av by simp
  from order denied failed show ?thesis by blast
qed

theorem gate_before_provider_witness:
  "handler get_commit sample_params sample_github url_Parse sample_validator
      [''owner'' \<mapsto> ''alice'', ''repo'' \<mapsto> ''repo1'', ''sha'' \<mapsto> ''main''] 0
     = ([ValidatorCheck ''github.com/alice/repo1'', GetClient,
         ProviderCall ''Repositories.GetCommit'' ''alice'' ''repo1''],
        Result (ToolResultText ''commit main''), 2) \<and>
   is_provider_call GetClient \<and>
   IsRepositoryAccessible url_Parse sample_validator ''github.com/bob/repo1'' = (False, None) \<and>
   handler create_branch sample_params sample_github url_Parse sample_validator
      [''owner'' \<mapsto> ''bob'', ''repo'' \<mapsto> ''repo1'', ''branch'' \<mapsto> ''feature''] 0
     = ([ValidatorCheck ''github.com/bob/repo1''],
        Result (ToolResultError ''Access denied: Repository bob/repo1 is not accessible to the current user''),
        0) \<and>
   IsRepositoryAccessible url_Parse (NewValidator ''alice@example.com'') ''github.com/alice/repo1''
     = (False, Some ErrNotInitialized) \<and>
   handler get_file_contents sample_params sample_github url_Parse (NewValidator ''alice@example.com'')
      [''owner'' \<mapsto> ''alice'', ''repo'' \<mapsto> ''repo1'', ''path'' \<mapsto> ''README.md''] 0
     = ([ValidatorCheck ''github.com/alice/repo1''],
        Result (ToolResultError ''Failed to validate repository access: validator not initialized''),
        0)"
  using gate_before_provider [of get_commit sample_params sample_github url_Parse sample_validator
      "[''owner'' \<mapsto> ''alice'', ''repo'' \<mapsto> ''repo1'', ''sha'' \<mapsto> ''main'']" 0
      "[ValidatorCheck ''github.com/alice/repo1'', GetClient,
         ProviderCall ''Repositories.GetCommit'' ''alice'' ''repo1'']"
      "Result (ToolResultText ''commit main'')" 2]
    gate_before_provider [of create_branch sample_params sample_github url_Parse sample_validator
      "[''owner'' \<mapsto> ''bob'', ''repo'' \<mapsto> ''repo1'', ''branch'' \<mapsto> ''feature'']" 0
      "[ValidatorCheck ''github.com/bob/repo1'']"
      "Result (ToolResultError ''Access denied: Repository bob/repo1 is not accessible to the current user'')"
      0]
  by (simp add: handler_eval normalize_eval NewValidator_def)

end
